theory Spec2Isabelle
  imports Main
begin

section \<open>Values of the host (V8) and C strings\<close>

text \<open>
  A JavaScript value as the addon sees it through the V8 API. An object carries its
  enumerable properties in enumeration order, each a key with its value; V8 hands an index
  key back as a number, which is why the addon tests \<open>key->IsString()\<close>. A function is
  an object that can be called: \<open>Object (Some f) ps\<close> is the host function number \<open>f\<close>,
  \<open>Object None ps\<close> is an object that cannot be called. Strings are the UTF-8 text they
  stand for.
\<close>

datatype jsvalue =
    Undefined
  | Null
  | Boolean bool
  | Number int
  | String string
  | Object "nat option" "(jsvalue \<times> jsvalue) list"

fun IsString :: "jsvalue \<Rightarrow> bool" where
  "IsString (String s) = True"
| "IsString v = False"

fun IsFunction :: "jsvalue \<Rightarrow> bool" where
  "IsFunction (Object (Some f) ps) = True"
| "IsFunction v = False"

fun IsObject :: "jsvalue \<Rightarrow> bool" where
  "IsObject (Object c ps) = True"
| "IsObject v = False"

text \<open>\<open>Local<Function>::Cast\<close> of a value that passed \<open>IsFunction\<close>: the function's number.\<close>

fun Function_Cast :: "jsvalue \<Rightarrow> nat" where
  "Function_Cast (Object (Some f) ps) = f"
| "Function_Cast v = 0"

fun GetPropertyNames :: "jsvalue \<Rightarrow> jsvalue list" where
  "GetPropertyNames (Object c ps) = map fst ps"
| "GetPropertyNames v = []"

fun Get :: "jsvalue \<Rightarrow> jsvalue \<Rightarrow> jsvalue" where
  "Get (Object c ps) key = (case map_of ps key of Some v \<Rightarrow> v | None \<Rightarrow> Undefined)"
| "Get v key = Undefined"

text \<open>
  \<open>args[i]\<close> of \<open>v8::Arguments\<close>: the i-th argument, \<open>Undefined\<close> at and beyond
  \<open>args.Length()\<close>.
\<close>

definition arg :: "jsvalue list \<Rightarrow> nat \<Rightarrow> jsvalue" where
  "arg args i = (if i < length args then args ! i else Undefined)"

text \<open>
  A C string is the text in a buffer up to its first NUL byte. \<open>std::string::c_str\<close>
  exposes the whole content followed by a terminating NUL; \<open>String::New(const char*)\<close>
  and the constructor \<open>std::string(const char*)\<close> read the buffer as a C string.
  A string value of JavaScript is written as the bytes of its UTF-8 encoding, the bytes
  \<open>String::Utf8Value\<close> gives for it.
\<close>

definition NUL :: char where
  "NUL = CHR 0x00"

definition c_str :: "string \<Rightarrow> string" where
  "c_str s = s @ [NUL]"

definition c_read :: "string \<Rightarrow> string" where
  "c_read buf = takeWhile (\<lambda>c. c \<noteq> NUL) buf"

text \<open>
  What can end the process below the level of JavaScript exceptions: \<open>std::string\<close>
  built from the NULL pointer that a \<open>String::Utf8Value\<close> holds when the conversion
  did not produce a string; a read through a pointer to an object that is not live; the
  \<open>abort\<close> of libuv when \<open>uv_mutex_destroy\<close> fails; and the exit of node inside
  \<open>FatalException\<close>.
\<close>

datatype fault = NullString | BadPointer | Aborted | Exited

definition std_string :: "string option \<Rightarrow> fault + string" where
  "std_string p = (case p of None \<Rightarrow> Inl NullString | Some buf \<Rightarrow> Inr (c_read buf))"

text \<open>The outcome of \<open>Function::Call\<close>: the value returned, or the exception raised.\<close>

datatype call_result = Returned jsvalue | Threw jsvalue

text \<open>
  The host side of V8 and node, taken as a parameter. \<open>Call f argv h\<close> runs host
  function \<open>f\<close> in host state \<open>h\<close>. \<open>ToString v\<close> is the text V8 converts a value that
  is not a string to, \<open>None\<close> when the conversion raises. \<open>FromUtf8 t\<close> is the string
  V8 decodes the bytes \<open>t\<close> to, each ill-formed sequence replaced by U+FFFD.
  \<open>Uncaught e h\<close> is what \<open>node::FatalException\<close> does with the exception \<open>e\<close>: \<open>None\<close>
  when node exits the process, as it does when the host listens to no
  \<open>uncaughtException\<close>, and the host state the listeners leave when it does and the
  process goes on.
\<close>

record 'h v8 =
  Call :: "nat \<Rightarrow> jsvalue list \<Rightarrow> 'h \<Rightarrow> call_result \<times> 'h"
  ToString :: "jsvalue \<Rightarrow> string option"
  FromUtf8 :: "string \<Rightarrow> string"
  Uncaught :: "jsvalue \<Rightarrow> 'h \<Rightarrow> 'h option"

text \<open>
  \<open>String::New(const char*)\<close> reads the buffer as a C string and decodes it as UTF-8.
  Bytes below 128 are the characters of ASCII and decode to themselves; what any other
  text decodes to is V8's.
\<close>

definition ascii :: "string \<Rightarrow> bool" where
  "ascii t = list_all (\<lambda>c. (of_char c :: nat) < 128) t"

definition String_New :: "'h v8 \<Rightarrow> string \<Rightarrow> jsvalue" where
  "String_New V buf =
     (let t = c_read buf in String (if ascii t then t else FromUtf8 V t))"

text \<open>
  \<open>v->ToString()\<close>: the text of a value, its own when it is a string; \<open>None\<close> when the
  conversion raises.
\<close>

definition Value_ToString :: "'h v8 \<Rightarrow> jsvalue \<Rightarrow> string option" where
  "Value_ToString V v = (case v of String t \<Rightarrow> Some t | _ \<Rightarrow> ToString V v)"

text \<open>
  \<open>String::Utf8Value x(v); *x\<close>: the buffer with the UTF-8 text of \<open>v\<close> and its
  terminator, NULL (\<open>None\<close>) for an empty handle and when the conversion raises.
\<close>

definition Utf8Value :: "'h v8 \<Rightarrow> jsvalue option \<Rightarrow> string option" where
  "Utf8Value V r =
     (case r of
        None \<Rightarrow> None
      | Some v \<Rightarrow> map_option c_str (Value_ToString V v))"

text \<open>The handle \<open>Function::Call\<close> returns: empty when the function raised.\<close>

fun handle_of :: "call_result \<Rightarrow> jsvalue option" where
  "handle_of (Returned v) = Some v"
| "handle_of (Threw e) = None"

section \<open>The script engine\<close>

text \<open>
  Modelled from the spec: the class \<open>duktape::DuktapeVM\<close> (duktapevm.h is not among the
  sources). The spec gives its interface: \<open>registerCallback(name, fn)\<close>, and
  \<open>run(entryPoint, parameters, script)\<close> returning \<open>{errorCode, value}\<close>. A run is the
  engine's conversation with the registered callbacks: it finishes with an error code and
  a value, or invokes the callback registered under a name with a parameter and goes on
  from the reply (\<open>None\<close> when no callback has that name). The engine itself is a
  parameter: any function from entry point, parameters and script to such a run.
\<close>

datatype script_run =
    Finish int string
  | Invoke string string "string option \<Rightarrow> script_run"

type_synonym engine = "string \<Rightarrow> string \<Rightarrow> string \<Rightarrow> script_run"

record run_result =
  errorCode :: int
  "value" :: string

record 'cb DuktapeVM =
  callbacks :: "(string \<times> 'cb) list"

text \<open>
  Modelled from the spec: the registry of \<open>DuktapeVM\<close>. \<open>registerCallback\<close> binds a
  name to a callback, the latest binding of a name being the one \<open>lookup\<close> finds.
\<close>

definition new_vm :: "'cb DuktapeVM" where
  "new_vm = \<lparr>callbacks = []\<rparr>"

definition registerCallback :: "string \<Rightarrow> 'cb \<Rightarrow> 'cb DuktapeVM \<Rightarrow> 'cb DuktapeVM" where
  "registerCallback name cb vm = vm\<lparr>callbacks := (name, cb) # callbacks vm\<rparr>"

definition lookup :: "'cb DuktapeVM \<Rightarrow> string \<Rightarrow> 'cb option" where
  "lookup vm name = map_of (callbacks vm) name"

text \<open>
  Modelled from the spec: \<open>DuktapeVM::run\<close> on the calling thread, for the run the
  engine makes of the script. Each invocation calls the registered callback inline; a
  fault inside a callback ends the run.
\<close>

type_synonym 'h inline_callback = "string \<Rightarrow> 'h \<Rightarrow> (fault + string) \<times> 'h"

primrec vm_run :: "'h inline_callback DuktapeVM \<Rightarrow> script_run \<Rightarrow> 'h \<Rightarrow> (fault + run_result) \<times> 'h" where
  "vm_run vm (Finish c v) = (\<lambda>h. (Inr \<lparr>errorCode = c, value = v\<rparr>, h))"
| "vm_run vm (Invoke name p k) = (\<lambda>h.
     (case lookup vm name of
        None \<Rightarrow> vm_run vm (k None) h
      | Some cb \<Rightarrow>
          (case cb p h of
             (Inl f, h') \<Rightarrow> (Inl f, h')
           | (Inr r, h') \<Rightarrow> vm_run vm (k (Some r)) h')))"

section \<open>runSync\<close>

datatype exception = TypeError jsvalue | Error jsvalue

text \<open>
  What a native function hands back to V8: the value it returns and the exception it has
  thrown with \<open>ThrowException\<close>, if any.
\<close>

record reply =
  returned :: jsvalue
  thrown :: "exception option"

text \<open>The lambda \<open>duktapeToNodeBridge\<close> of \<open>runSync\<close>, capturing \<open>apiCallbackFunc\<close>.\<close>

definition duktapeToNodeBridge_sync :: "'h v8 \<Rightarrow> nat \<Rightarrow> 'h inline_callback" where
  "duktapeToNodeBridge_sync V apiCallbackFunc paramString h =
     (let argv = [String_New V (c_str paramString)];
          (retVal, h') = Call V apiCallbackFunc argv h;
          retString = Utf8Value V (handle_of retVal)
      in (std_string retString, h'))"

text \<open>How a native call ends early: with a fault, or with a JavaScript exception thrown.\<close>

datatype abort = Faulted fault | Thrown exception

text \<open>\<open>String::Utf8Value x(v); std::string(*x)\<close>.\<close>

definition utf8_string :: "'h v8 \<Rightarrow> jsvalue \<Rightarrow> fault + string" where
  "utf8_string V v = std_string (Utf8Value V (Some v))"

text \<open>
  The loop over the property names of the api object, shared in shape by \<open>run\<close> and
  \<open>runSync\<close>, from the key at hand on. \<open>bridge\<close> builds what is registered for a
  function (the lambda \<open>duktapeToNodeBridge\<close> of the caller). The loop registers each
  entry that passes the test before it looks at the next, and stops at the first entry
  that fails: it gives the engine as the loop leaves it, and how the loop was left.
\<close>

fun register_api ::
  "'h v8 \<Rightarrow> (nat \<Rightarrow> 'cb) \<Rightarrow> jsvalue \<Rightarrow> jsvalue list \<Rightarrow> 'cb DuktapeVM
     \<Rightarrow> abort option \<times> 'cb DuktapeVM" where
  "register_api V bridge object [] vm = (None, vm)"
| "register_api V bridge object (key # keys) vm =
     (let val = Get object key in
      if \<not> IsString key \<or> \<not> IsFunction val
      then (Some (Thrown (Error (String_New V (c_str ''Error in API-definition'')))), vm)
      else
        let apiCallbackFunc = Function_Cast val;
            duktapeToNodeBridge = bridge apiCallbackFunc
        in case utf8_string V key of
             Inl f \<Rightarrow> (Some (Faulted f), vm)
           | Inr keyStr \<Rightarrow>
               register_api V bridge object keys (registerCallback keyStr duktapeToNodeBridge vm))"

text \<open>The block \<open>if(args[3]->IsObject()) { ... }\<close>.\<close>

definition register_args ::
  "'h v8 \<Rightarrow> (nat \<Rightarrow> 'cb) \<Rightarrow> jsvalue \<Rightarrow> 'cb DuktapeVM \<Rightarrow> abort option \<times> 'cb DuktapeVM" where
  "register_args V bridge api vm =
     (if IsObject api then register_api V bridge api (GetPropertyNames api) vm else (None, vm))"

definition throw :: "exception \<Rightarrow> reply" where
  "throw e = \<lparr>returned = Undefined, thrown = Some e\<rparr>"

definition return :: "jsvalue \<Rightarrow> reply" where
  "return v = \<lparr>returned = v, thrown = None\<rparr>"

definition runSync :: "'h v8 \<Rightarrow> engine \<Rightarrow> jsvalue list \<Rightarrow> 'h \<Rightarrow> (fault + reply) \<times> 'h" where
  "runSync V E args h =
     (if length args < 3
      then (Inr (throw (TypeError (String_New V (c_str ''Wrong number of arguments'')))), h)
      else if \<not> IsString (arg args 0) \<or> \<not> IsString (arg args 1) \<or> \<not> IsString (arg args 2)
      then (Inr (throw (TypeError (String_New V (c_str ''Wrong arguments'')))), h)
      else
        case register_args V (duktapeToNodeBridge_sync V) (arg args 3) new_vm of
          (Some (Thrown e), vm) \<Rightarrow> (Inr (throw e), h)
        | (Some (Faulted f), vm) \<Rightarrow> (Inl f, h)
        | (None, vm) \<Rightarrow>
            (case (utf8_string V (arg args 0), utf8_string V (arg args 1),
                   utf8_string V (arg args 2)) of
               (Inr functionName, Inr parameters, Inr script) \<Rightarrow>
                 (case vm_run vm (E functionName parameters script) h of
                    (Inl f, h') \<Rightarrow> (Inl f, h')
                  | (Inr ret, h') \<Rightarrow>
                      if errorCode ret \<noteq> 0
                      then (Inr (throw (Error (String_New V (c_str (value ret))))), h')
                      else (Inr (return (String_New V (c_str (value ret)))), h'))
             | _ \<Rightarrow> (Inl NullString, h)))"

section \<open>The asynchronous path: process state\<close>

text \<open>
  \<open>WorkRequest\<close>; the callbacks registered in its engine are the lambdas of \<open>run\<close>, each
  given by the function it captured (\<open>persistentApiCallbackFunc\<close>).
\<close>

record WorkRequest =
  vm :: "nat DuktapeVM"
  functionName :: string
  parameters :: string
  script :: string
  callback :: nat
  hasError :: bool
  returnValue :: string

record APICallbackSignaling =
  callback :: nat
  parameter :: string
  returnValue :: string

datatype thread = Main | Worker nat

text \<open>
  Where a worker thread stands inside \<open>onWork\<close>: in the engine (\<open>vm.run\<close>), with what
  remains of the run; at one of the statements of the lambda \<open>duktapeToNodeBridge\<close> of
  \<open>run\<close>, with the envelope's address once it is allocated and the rest of the run, which
  waits for the lambda's result; or past the end of \<open>onWork\<close>.
\<close>

datatype worker =
    W_run script_run
  | W_lock nat string "string option \<Rightarrow> script_run"
  | W_post nat string "string option \<Rightarrow> script_run"
  | W_send nat "string option \<Rightarrow> script_run"
  | W_wait nat "string option \<Rightarrow> script_run"
  | W_blocked nat "string option \<Rightarrow> script_run"
  | W_woken nat "string option \<Rightarrow> script_run"
  | W_unlock nat "string option \<Rightarrow> script_run"
  | W_read nat "string option \<Rightarrow> script_run"
  | W_done

text \<open>Where the owning thread stands: in its event loop, or inside \<open>callV8FunctionOnMainThread\<close>.\<close>

datatype main_pc = M_idle | M_lock | M_call | M_signal | M_unlock

text \<open>
  The effects the log keeps: the calls into libuv that create and release the three
  globals and queue the work, the calls of host functions (\<open>ApiCall\<close> with the
  envelope's address, the function and the arguments; \<open>CompletionCall\<close> with the
  request, the function and the arguments), \<open>FatalException\<close>, and the releases of the
  destructor. Two entries are bookkeeping of the model: \<open>RunReturned\<close>, the return of
  \<open>vm.run\<close> for a request with its error code and value, and \<open>Stored\<close>, the write of
  \<open>returnValue\<close> in an envelope.
\<close>

datatype event =
    MutexInit | CondInit | AsyncInit | QueueWork nat
  | AsyncClose | MutexDestroy | CondDestroy
  | RunReturned nat int string
  | ApiCall nat nat "jsvalue list"
  | Stored nat string
  | CompletionCall nat nat "jsvalue list"
  | FatalException jsvalue
  | CallbackDispose nat | DeleteWorkRequest nat | DeleteWork nat

text \<open>
  The process: the host's own state; the three globals \<open>async\<close>, \<open>cv\<close> and \<open>mutex\<close>
  (the user pointer of the handle, whether a wake-up was sent and is not delivered yet,
  whether the handle is initialised and not closed; the threads blocked in
  \<open>uv_cond_wait\<close>; the thread holding the mutex); the heap of work requests and of
  envelopes, by address, with the next fresh address of each (a \<open>uv_work_t\<close> and the
  \<open>WorkRequest\<close> in its \<open>data\<close> share one address); the work libuv has queued and not
  started; the worker threads by the request they run; the owning thread; the fault
  that ended the process, if any; and the effects so far, oldest first.
\<close>

record 'h process =
  host :: 'h
  async_data :: "nat option"
  async_pending :: bool
  async_active :: bool
  cv :: "nat list"
  mutex :: "thread option"
  requests :: "nat \<rightharpoonup> WorkRequest"
  envelopes :: "nat \<rightharpoonup> APICallbackSignaling"
  next_request :: nat
  next_envelope :: nat
  queue :: "nat list"
  workers :: "nat \<rightharpoonup> worker"
  main :: main_pc
  crashed :: "fault option"
  log :: "event list"

definition fresh_process :: "'h \<Rightarrow> 'h process" where
  "fresh_process h = \<lparr>host = h, async_data = None, async_pending = False, async_active = False,
     cv = [], mutex = None, requests = Map.empty, envelopes = Map.empty,
     next_request = 0, next_envelope = 0, queue = [], workers = Map.empty,
     main = M_idle, crashed = None, log = []\<rparr>"

section \<open>run\<close>

text \<open>
  The lambda of \<open>run\<close> captures \<open>persistentApiCallbackFunc\<close> and nothing else; its body
  runs on the worker thread, statement by statement, in \<open>onWork_step\<close> below.
\<close>

definition duktapeToNodeBridge :: "nat \<Rightarrow> nat" where
  "duktapeToNodeBridge persistentApiCallbackFunc = persistentApiCallbackFunc"

definition new_WorkRequest :: "string \<Rightarrow> string \<Rightarrow> string \<Rightarrow> nat \<Rightarrow> WorkRequest" where
  "new_WorkRequest fn ps sc cb =
     \<lparr>vm = new_vm, functionName = fn, parameters = ps, script = sc,
      WorkRequest.callback = cb, hasError = False, WorkRequest.returnValue = []\<rparr>"

definition run :: "'h v8 \<Rightarrow> jsvalue list \<Rightarrow> 'h process \<Rightarrow> (fault + reply) \<times> 'h process" where
  "run V args s =
     (if length args < 5
      then (Inr (throw (TypeError (String_New V (c_str ''Wrong number of arguments'')))), s)
      else if \<not> IsString (arg args 0) \<or> \<not> IsString (arg args 1) \<or> \<not> IsString (arg args 2)
              \<or> \<not> IsFunction (arg args 4)
      then (Inr (throw (TypeError (String_New V (c_str ''Wrong arguments'')))), s)
      else
        case (utf8_string V (arg args 0), utf8_string V (arg args 1),
              utf8_string V (arg args 2)) of
          (Inr fn, Inr ps, Inr sc) \<Rightarrow>
            (let returnCallback = Function_Cast (arg args 4);
                 workReq = next_request s;
                 wr = new_WorkRequest fn ps sc returnCallback;
                 (ab, vm') = register_args V duktapeToNodeBridge (arg args 3) (vm wr);
                 s1 = s\<lparr>requests := (requests s)(workReq \<mapsto> wr\<lparr>vm := vm'\<rparr>),
                         next_request := Suc workReq\<rparr>
             in case ab of
                  Some (Thrown e) \<Rightarrow> (Inr (throw e), s1)
                | Some (Faulted f) \<Rightarrow> (Inl f, s1)
                | None \<Rightarrow>
                    (Inr (return Undefined),
                     s1\<lparr>mutex := None, cv := [], async_active := True, async_pending := False,
                        queue := queue s1 @ [workReq],
                        log := log s1 @ [MutexInit, CondInit, AsyncInit, QueueWork workReq]\<rparr>))
        | _ \<Rightarrow> (Inl NullString, s))"

section \<open>The worker thread\<close>

text \<open>
  \<open>onWork\<close> from the return of \<open>vm.run\<close> on, \<open>c\<close> and \<open>v\<close> being the error code and the
  value of \<open>ret\<close>.
\<close>

definition onWork_return :: "int \<Rightarrow> string \<Rightarrow> WorkRequest \<Rightarrow> WorkRequest" where
  "onWork_return c v work = work\<lparr>hasError := c \<noteq> 0, WorkRequest.returnValue := v\<rparr>"

definition set_worker :: "nat \<Rightarrow> worker \<Rightarrow> 'h process \<Rightarrow> 'h process" where
  "set_worker j w s = s\<lparr>workers := (workers s)(j \<mapsto> w)\<rparr>"

text \<open>
  One step of the worker thread of request \<open>j\<close>; \<open>None\<close> when the thread cannot move
  (it waits for the mutex or on the condition variable, or \<open>onWork\<close> is over). The first
  two cases are the engine's: the end of \<open>vm.run\<close>, where \<open>onWork\<close> writes the result
  to the request, and the invocation of a callback by name. The others are the statements
  of the lambda of \<open>run\<close>, in order. A thread blocked in \<open>uv_cond_wait\<close> moves again
  when \<open>uv_cond_signal\<close> has picked it, and only then: wake-ups without a signal are not
  part of the model.
\<close>

fun onWork_step :: "nat \<Rightarrow> worker \<Rightarrow> 'h process \<Rightarrow> 'h process option" where
  "onWork_step j (W_run (Finish c v)) s =
     (case requests s j of
        None \<Rightarrow> Some ((set_worker j W_done s)\<lparr>crashed := Some BadPointer\<rparr>)
      | Some work \<Rightarrow>
          Some ((set_worker j W_done s)
                  \<lparr>requests := (requests s)(j \<mapsto> onWork_return c v work),
                   log := log s @ [RunReturned j c v]\<rparr>))"
| "onWork_step j (W_run (Invoke name p k)) s =
     (case requests s j of
        None \<Rightarrow> Some ((set_worker j W_done s)\<lparr>crashed := Some BadPointer\<rparr>)
      | Some work \<Rightarrow>
          (case lookup (vm work) name of
             None \<Rightarrow> Some (set_worker j (W_run (k None)) s)
           | Some f \<Rightarrow> Some (set_worker j (W_lock f p k) s)))"
| "onWork_step j (W_lock f p k) s =
     \<comment> \<open>\<open>uv_mutex_lock(&mutex)\<close>\<close>
     (if mutex s = None then Some ((set_worker j (W_post f p k) s)\<lparr>mutex := Some (Worker j)\<rparr>)
      else None)"
| "onWork_step j (W_post f p k) s =
     \<comment> \<open>\<open>cbsignaling(new APICallbackSignaling(f, parameter)); async.data = cbsignaling.get()\<close>\<close>
     (let a = next_envelope s;
          cbsignaling = \<lparr>APICallbackSignaling.callback = f, parameter = p,
                         APICallbackSignaling.returnValue = []\<rparr>
      in Some ((set_worker j (W_send a k) s)
                 \<lparr>envelopes := (envelopes s)(a \<mapsto> cbsignaling), next_envelope := Suc a,
                  async_data := Some a\<rparr>))"
| "onWork_step j (W_send a k) s =
     \<comment> \<open>\<open>uv_async_send(&async)\<close>\<close>
     Some ((set_worker j (W_wait a k) s)\<lparr>async_pending := True\<rparr>)"
| "onWork_step j (W_wait a k) s =
     \<comment> \<open>\<open>uv_cond_wait(&cv, &mutex)\<close>, entering: the mutex is released and the thread blocks\<close>
     Some ((set_worker j (W_blocked a k) s)\<lparr>mutex := None, cv := cv s @ [j]\<rparr>)"
| "onWork_step j (W_blocked a k) s = None"
| "onWork_step j (W_woken a k) s =
     \<comment> \<open>\<open>uv_cond_wait(&cv, &mutex)\<close>, leaving: the mutex is taken again\<close>
     (if mutex s = None then Some ((set_worker j (W_unlock a k) s)\<lparr>mutex := Some (Worker j)\<rparr>)
      else None)"
| "onWork_step j (W_unlock a k) s =
     \<comment> \<open>\<open>uv_mutex_unlock(&mutex)\<close>\<close>
     Some ((set_worker j (W_read a k) s)\<lparr>mutex := None\<rparr>)"
| "onWork_step j (W_read a k) s =
     \<comment> \<open>\<open>std::string retStr(cbsignaling->returnValue); return retStr;\<close> frees the envelope\<close>
     (case envelopes s a of
        None \<Rightarrow> Some ((set_worker j W_done s)\<lparr>crashed := Some BadPointer\<rparr>)
      | Some cbsignaling \<Rightarrow>
          Some ((set_worker j (W_run (k (Some (APICallbackSignaling.returnValue cbsignaling)))) s)
                  \<lparr>envelopes := (envelopes s)(a := None)\<rparr>))"
| "onWork_step j W_done s = None"

section \<open>The owning thread\<close>

text \<open>\<open>~ScopedUvWorkRequest\<close>.\<close>

definition ScopedUvWorkRequest_dtor :: "nat \<Rightarrow> 'h process \<Rightarrow> 'h process" where
  "ScopedUvWorkRequest_dtor req s =
     s\<lparr>requests := (requests s)(req := None),
       log := log s @ [CallbackDispose req, DeleteWorkRequest req, DeleteWork req]\<rparr>"

text \<open>
  \<open>onWorkDone\<close>. \<open>uv_mutex_destroy\<close> aborts the process when the mutex cannot be
  destroyed: while a thread holds it, and while a thread blocked in \<open>uv_cond_wait\<close> is
  to take it again. \<open>FatalException\<close> is node's: the process exits inside it, or it
  returns and the destructor of \<open>uvReq\<close> runs at the end of the scope.
\<close>

definition onWorkDone :: "'h v8 \<Rightarrow> nat \<Rightarrow> 'h process \<Rightarrow> 'h process" where
  "onWorkDone V req s =
     (let s0 = s\<lparr>async_active := False, log := log s @ [AsyncClose]\<rparr>
      in if mutex s0 \<noteq> None \<or> cv s0 \<noteq> [] then s0\<lparr>crashed := Some Aborted\<rparr>
         else
           let s1 = s0\<lparr>log := log s0 @ [MutexDestroy, CondDestroy]\<rparr>
           in case requests s1 req of
                None \<Rightarrow> s1\<lparr>crashed := Some BadPointer\<rparr>
              | Some work \<Rightarrow>
                  (let argv = [Boolean (hasError work),
                               String_New V (c_str (WorkRequest.returnValue work))];
                       (r, h') = Call V (WorkRequest.callback work) argv (host s1);
                       s2 = s1\<lparr>host := h',
                               log := log s1
                                 @ [CompletionCall req (WorkRequest.callback work) argv]\<rparr>
                   in case r of
                        Returned v \<Rightarrow> ScopedUvWorkRequest_dtor req s2
                      | Threw e \<Rightarrow>
                          (let s3 = s2\<lparr>log := log s2 @ [FatalException e]\<rparr>
                           in case Uncaught V e h' of
                                None \<Rightarrow> s3\<lparr>crashed := Some Exited\<rparr>
                              | Some h'' \<Rightarrow> ScopedUvWorkRequest_dtor req (s3\<lparr>host := h''\<rparr>))))"

text \<open>
  \<open>callV8FunctionOnMainThread\<close> between \<open>uv_mutex_lock\<close> and \<open>uv_cond_signal\<close>: the
  envelope is read through \<open>handle->data\<close>, the bound function is called, and what it
  returned is stored in the envelope as a string.
\<close>

definition callV8FunctionOnMainThread_body :: "'h v8 \<Rightarrow> 'h process \<Rightarrow> 'h process" where
  "callV8FunctionOnMainThread_body V s =
     (case async_data s of
        None \<Rightarrow> s\<lparr>crashed := Some BadPointer\<rparr>
      | Some a \<Rightarrow>
          (case envelopes s a of
             None \<Rightarrow> s\<lparr>crashed := Some BadPointer\<rparr>
           | Some signalData \<Rightarrow>
               (let argv = [String_New V (c_str (parameter signalData))];
                    (retVal, h') = Call V (APICallbackSignaling.callback signalData) argv (host s);
                    s1 = s\<lparr>host := h',
                            log := log s @ [ApiCall a (APICallbackSignaling.callback signalData) argv]\<rparr>
                in case std_string (Utf8Value V (handle_of retVal)) of
                     Inl f \<Rightarrow> s1\<lparr>crashed := Some f\<rparr>
                   | Inr r \<Rightarrow>
                       s1\<lparr>envelopes := (envelopes s)
                            (a \<mapsto> signalData\<lparr>APICallbackSignaling.returnValue := r\<rparr>),
                          log := log s1 @ [Stored a r]\<rparr>)))"

text \<open>
  \<open>uv_cond_signal(&cv)\<close> wakes one of the threads blocked on the condition variable, if
  there is one; which one is libuv's choice, here the number \<open>c\<close>.
\<close>

definition uv_cond_signal :: "nat \<Rightarrow> 'h process \<Rightarrow> 'h process" where
  "uv_cond_signal c s =
     (if cv s = [] then s
      else
        let j = cv s ! (c mod length (cv s))
        in s\<lparr>cv := remove1 j (cv s),
             workers := (case workers s j of
                           Some (W_blocked a k) \<Rightarrow> (workers s)(j \<mapsto> W_woken a k)
                         | _ \<Rightarrow> workers s)\<rparr>)"

text \<open>One step of the owning thread inside \<open>callV8FunctionOnMainThread\<close>.\<close>

fun callV8FunctionOnMainThread_step :: "'h v8 \<Rightarrow> nat \<Rightarrow> main_pc \<Rightarrow> 'h process \<Rightarrow> 'h process option" where
  "callV8FunctionOnMainThread_step V c M_idle s = None"
| "callV8FunctionOnMainThread_step V c M_lock s =
     \<comment> \<open>\<open>uv_mutex_lock(&mutex)\<close>\<close>
     (if mutex s = None then Some (s\<lparr>mutex := Some Main, main := M_call\<rparr>) else None)"
| "callV8FunctionOnMainThread_step V c M_call s = Some ((callV8FunctionOnMainThread_body V s)\<lparr>main := M_signal\<rparr>)"
| "callV8FunctionOnMainThread_step V c M_signal s = Some ((uv_cond_signal c s)\<lparr>main := M_unlock\<rparr>)"
| "callV8FunctionOnMainThread_step V c M_unlock s =
     \<comment> \<open>\<open>uv_mutex_unlock(&mutex)\<close>\<close>
     Some (s\<lparr>mutex := None, main := M_idle\<rparr>)"

section \<open>The process as a transition system\<close>

text \<open>
  What can happen next: the host calls \<open>run\<close>; libuv starts \<open>onWork\<close> for a queued
  request on a worker thread; a worker thread takes a step; the event loop delivers a
  pending wake-up (\<open>callV8FunctionOnMainThread\<close> is entered); the owning thread takes a
  step in that function; the event loop calls \<open>onWorkDone\<close> for a request whose
  \<open>onWork\<close> is over. The owning thread does one thing at a time.
\<close>

datatype action =
    Submit "jsvalue list"
  | Start nat
  | Work nat
  | Wake
  | Handler nat
  | Done nat

fun finished :: "worker option \<Rightarrow> bool" where
  "finished (Some W_done) = True"
| "finished w = False"

definition step :: "'h v8 \<Rightarrow> engine \<Rightarrow> action \<Rightarrow> 'h process \<Rightarrow> 'h process option" where
  "step V E a s =
     (if crashed s \<noteq> None then None
      else case a of
        Submit args \<Rightarrow>
          (if main s = M_idle
           then (case run V args s of
                   (Inl f, s') \<Rightarrow> Some (s'\<lparr>crashed := Some f\<rparr>)
                 | (Inr r, s') \<Rightarrow> Some s')
           else None)
      | Start j \<Rightarrow>
          (if j \<in> set (queue s)
           then (case requests s j of
                   None \<Rightarrow> None
                 | Some work \<Rightarrow>
                     Some (s\<lparr>queue := removeAll j (queue s),
                             workers := (workers s)
                               (j \<mapsto> W_run (E (functionName work) (parameters work) (script work)))\<rparr>))
           else None)
      | Work j \<Rightarrow> (case workers s j of None \<Rightarrow> None | Some w \<Rightarrow> onWork_step j w s)
      | Wake \<Rightarrow>
          (if main s = M_idle \<and> async_pending s \<and> async_active s
           then Some (s\<lparr>async_pending := False, main := M_lock\<rparr>)
           else None)
      | Handler c \<Rightarrow> callV8FunctionOnMainThread_step V c (main s) s
      | Done j \<Rightarrow>
          (if main s = M_idle \<and> finished (workers s j)
           then Some (onWorkDone V j (s\<lparr>workers := (workers s)(j := None)\<rparr>))
           else None))"

fun exec :: "'h v8 \<Rightarrow> engine \<Rightarrow> action list \<Rightarrow> 'h process \<Rightarrow> 'h process option" where
  "exec V E [] s = Some s"
| "exec V E (a # as) s = (case step V E a s of None \<Rightarrow> None | Some s' \<Rightarrow> exec V E as s')"

section \<open>A concrete host and concrete engines\<close>

text \<open>
  A host whose state counts the calls made: function 1 greets, function 2 returns a
  string with a NUL inside, function 3 returns a number, function 4 raises, function 5
  returns an object whose \<open>toString\<close> is function 4, every other function returns
  \<open>undefined\<close>. The conversion of an object whose \<open>toString\<close> is function 4 raises,
  as that function does; any other object converts to \<open>[object Object]\<close>. Its decoder
  keeps the characters of ASCII and each lead byte followed by the continuation bytes it
  asks for, and puts U+FFFD (the bytes EF BF BD) for every other byte. It listens to no
  \<open>uncaughtException\<close>; the second host does, its listener counting as a call.
\<close>

definition example_Call :: "nat \<Rightarrow> jsvalue list \<Rightarrow> nat \<Rightarrow> call_result \<times> nat" where
  "example_Call f argv h =
     (if f = 1 then (case argv of
                       [String p] \<Rightarrow> (Returned (String (''hi:'' @ p)), Suc h)
                     | _ \<Rightarrow> (Threw Undefined, Suc h))
      else if f = 2 then (Returned (String (''a'' @ [NUL] @ ''b'')), Suc h)
      else if f = 3 then (Returned (Number 7), Suc h)
      else if f = 4 then (Threw (String ''boom''), Suc h)
      else if f = 5 then (Returned (Object None [(String ''toString'', Object (Some 4) [])]), Suc h)
      else (Returned Undefined, Suc h))"

definition example_ToString :: "jsvalue \<Rightarrow> string option" where
  "example_ToString v =
     (case v of
        Undefined \<Rightarrow> Some ''undefined''
      | Null \<Rightarrow> Some ''null''
      | Boolean b \<Rightarrow> Some (if b then ''true'' else ''false'')
      | Number n \<Rightarrow> Some (if n = 7 then ''7'' else ''0'')
      | String t \<Rightarrow> Some t
      | Object c ps \<Rightarrow>
          (if map_of ps (String ''toString'') = Some (Object (Some 4) []) then None
           else Some ''[object Object]''))"

definition replacement :: string where
  "replacement = [CHR 0xEF, CHR 0xBF, CHR 0xBD]"

definition continuation :: "char \<Rightarrow> bool" where
  "continuation c = (128 \<le> (of_char c :: nat) \<and> (of_char c :: nat) < 192)"

definition lead :: "char \<Rightarrow> nat" where
  "lead c =
     (let n = (of_char c :: nat)
      in if 194 \<le> n \<and> n < 224 then 1
         else if 224 \<le> n \<and> n < 240 then 2
         else if 240 \<le> n \<and> n < 245 then 3
         else 0)"

fun example_FromUtf8 :: "string \<Rightarrow> string" where
  "example_FromUtf8 [] = []"
| "example_FromUtf8 (c # cs) =
     (if (of_char c :: nat) < 128 then c # example_FromUtf8 cs
      else if 0 < lead c \<and> lead c \<le> length cs \<and> list_all continuation (take (lead c) cs)
      then c # take (lead c) cs @ example_FromUtf8 (drop (lead c) cs)
      else replacement @ example_FromUtf8 cs)"

definition example_v8 :: "nat v8" where
  "example_v8 = \<lparr>Call = example_Call, ToString = example_ToString,
                  FromUtf8 = example_FromUtf8, Uncaught = (\<lambda>e h. None)\<rparr>"

definition listening_v8 :: "nat v8" where
  "listening_v8 = example_v8\<lparr>Uncaught := (\<lambda>e h. Some (Suc h))\<rparr>"

definition function_object :: "nat \<Rightarrow> jsvalue" where
  "function_object f = Object (Some f) []"

text \<open>
  The engine on \<open>function main(p){return api.greet('x')}\<close>, and the engine on scripts
  that return the three characters a, NUL, b, that raise, that return a literal, and
  that return the one byte FF, which is not UTF-8.
\<close>

definition greet_engine :: engine where
  "greet_engine fn ps sc =
     Invoke ''greet'' ''x''
       (\<lambda>r. case r of Some t \<Rightarrow> Finish 0 t | None \<Rightarrow> Finish 1 ''ReferenceError'')"

definition nul_engine :: engine where
  "nul_engine fn ps sc = Finish 0 (''a'' @ [NUL] @ ''b'')"

definition failing_engine :: engine where
  "failing_engine fn ps sc = Finish 1 ''Error: no''"

definition literal_engine :: engine where
  "literal_engine fn ps sc = Finish 0 ''42''"

definition byte_engine :: engine where
  "byte_engine fn ps sc = Finish 0 [CHR 0xFF]"

text \<open>The calls and the schedule of the example of the spec: one job that greets.\<close>

definition sync_args :: "jsvalue \<Rightarrow> jsvalue list" where
  "sync_args api = [String ''main'', String ''{}'', String ''src'', api]"

definition async_args :: "jsvalue \<Rightarrow> nat \<Rightarrow> jsvalue list" where
  "async_args api onDone = [String ''main'', String ''{}'', String ''src'', api, function_object onDone]"



text \<open>Api objects: with an empty key, with an index key after a good entry.\<close>

definition empty_key_api :: jsvalue where
  "empty_key_api = Object None [(String [], function_object 1)]"

definition index_key_api :: jsvalue where
  "index_key_api = Object None [(String ''greet'', function_object 1), (Number 1, function_object 2)]"

text \<open>
  A process in which request 0 has finished its work with the given result and waits for
  \<open>onWorkDone\<close>, its completion callback being function \<open>cb\<close>.
\<close>

definition finished_process :: "nat \<Rightarrow> int \<Rightarrow> string \<Rightarrow> nat process" where
  "finished_process cb c v =
     (fresh_process 0)
       \<lparr>requests := [0 \<mapsto> onWork_return c v (new_WorkRequest ''main'' ''{}'' ''src'' cb)],
        next_request := 1, workers := [0 \<mapsto> W_done], async_active := True\<rparr>"


text \<open>
  A process in which an envelope for function 3 is posted and the owning thread is about
  to serve it, and the rest of a run that ends with the reply it gets.
\<close>

definition posted_process :: "nat process" where
  "posted_process =
     (fresh_process 0)
       \<lparr>async_data := Some 0, next_envelope := 1,
        envelopes := [0 \<mapsto> \<lparr>APICallbackSignaling.callback = 3, parameter = ''x'',
                               APICallbackSignaling.returnValue = []\<rparr>]\<rparr>"

definition echo :: "string option \<Rightarrow> script_run" where
  "echo r = (case r of Some t \<Rightarrow> Finish 0 t | None \<Rightarrow> Finish 1 [])"

section \<open>Predicates of the statements\<close>

text \<open>The exception of the api block, and an api object with an entry the block rejects.\<close>

definition api_error :: exception where
  "api_error = Error (String ''Error in API-definition'')"

definition bad_entry :: "jsvalue \<Rightarrow> bool" where
  "bad_entry api =
     (\<exists>key\<in>set (GetPropertyNames api). \<not> IsString key \<or> \<not> IsFunction (Get api key))"

text \<open>
  The completion calls and the returns of the engine that the log holds for a request.
\<close>

fun completion_of :: "nat \<Rightarrow> event \<Rightarrow> bool" where
  "completion_of j (CompletionCall r f argv) = (r = j)"
| "completion_of j e = False"

fun return_of :: "nat \<Rightarrow> event \<Rightarrow> bool" where
  "return_of j (RunReturned r c v) = (r = j)"
| "return_of j e = False"

definition completions :: "nat \<Rightarrow> event list \<Rightarrow> event list" where
  "completions j lg = filter (completion_of j) lg"

definition returns :: "nat \<Rightarrow> event list \<Rightarrow> event list" where
  "returns j lg = filter (return_of j) lg"


text \<open>
  The bookkeeping behind it. A worker past the end of \<open>onWork\<close> has logged the one
  return of the engine and written it to its request; any other worker has logged none.
  Requests not allocated yet, queued requests and requests with a worker have no
  completion call in the log.
\<close>

fun worker_ok :: "nat \<Rightarrow> worker \<Rightarrow> event list \<Rightarrow> (nat \<rightharpoonup> WorkRequest) \<Rightarrow> bool" where
  "worker_ok j W_done lg rq =
     (\<exists>c v work. returns j lg = [RunReturned j c v] \<and> rq j = Some work
        \<and> hasError work = (c \<noteq> 0) \<and> WorkRequest.returnValue work = v)"
| "worker_ok j w lg rq = (returns j lg = [] \<and> rq j \<noteq> None)"



text \<open>Events that are neither a completion call nor a return of the engine.\<close>

definition quiet :: "event list \<Rightarrow> bool" where
  "quiet es = (\<forall>e\<in>set es. \<forall>j. \<not> completion_of j e \<and> \<not> return_of j e)"



section \<open>One job in flight\<close>



definition unserved :: "nat \<Rightarrow> 'h process \<Rightarrow> bool" where
  "unserved a s =
     (async_data s = Some a \<and> a < next_envelope s \<and> envelopes s a \<noteq> None
      \<and> (\<forall>r. Stored a r \<notin> set (log s)))"

definition served :: "'h v8 \<Rightarrow> nat \<Rightarrow> 'h process \<Rightarrow> bool" where
  "served V a s =
     (\<exists>sd. envelopes s a = Some sd
        \<and> ApiCall a (APICallbackSignaling.callback sd) [String_New V (c_str (parameter sd))]
            \<in> set (log s)
        \<and> Stored a (APICallbackSignaling.returnValue sd) \<in> set (log s)
        \<and> (\<forall>r. Stored a r \<in> set (log s) \<longrightarrow> r = APICallbackSignaling.returnValue sd))"


text \<open>Every envelope the log says was written has an address already handed out.\<close>

definition stored_below :: "nat \<Rightarrow> event list \<Rightarrow> bool" where
  "stored_below n lg = (\<forall>a r. Stored a r \<in> set lg \<longrightarrow> a < n)"









section \<open>A job run to its end\<close>

text \<open>
  What the run of a job with its callbacks called inline gives from the call of the
  function \<open>f\<close> with the parameter \<open>p\<close> on, \<open>k\<close> being the rest of the run.
\<close>

definition resume ::
  "'h v8 \<Rightarrow> 'h inline_callback DuktapeVM \<Rightarrow> (string option \<Rightarrow> script_run) \<Rightarrow> nat \<Rightarrow> string \<Rightarrow> 'h
     \<Rightarrow> (fault + run_result) \<times> 'h" where
  "resume V M k f p h =
     (case duktapeToNodeBridge_sync V f p h of
        (Inl e, h') \<Rightarrow> (Inl e, h')
      | (Inr r, h') \<Rightarrow> vm_run M (k (Some r)) h')"

text \<open>
  The run of a job on its worker follows the run with the callbacks called inline, whose
  result is \<open>R\<close>. An envelope is posted: the wake handle points to it and the inline run
  from the call it asks for gives \<open>R\<close>. An envelope is answered: the inline run from the
  value stored in it gives \<open>R\<close>.
\<close>

definition posted ::
  "'h v8 \<Rightarrow> 'h inline_callback DuktapeVM \<Rightarrow> (fault + run_result) \<times> 'h
     \<Rightarrow> (string option \<Rightarrow> script_run) \<Rightarrow> nat \<Rightarrow> 'h process \<Rightarrow> bool" where
  "posted V M R k a s =
     (async_data s = Some a
      \<and> (case envelopes s a of
            None \<Rightarrow> False
          | Some sd \<Rightarrow>
              resume V M k (APICallbackSignaling.callback sd) (parameter sd) (host s) = R))"

definition answered ::
  "'h inline_callback DuktapeVM \<Rightarrow> (fault + run_result) \<times> 'h
     \<Rightarrow> (string option \<Rightarrow> script_run) \<Rightarrow> nat \<Rightarrow> 'h process \<Rightarrow> bool" where
  "answered M R k a s =
     (case envelopes s a of
        None \<Rightarrow> False
      | Some sd \<Rightarrow> vm_run M (k (Some (APICallbackSignaling.returnValue sd))) (host s) = R)"











section \<open>C strings and conversions\<close>

lemma c_read_c_str: "c_read (c_str s) = takeWhile (\<lambda>c. c \<noteq> NUL) s"
  by (induction s) (simp_all add: c_read_def c_str_def)

lemma c_read_c_str_id: "NUL \<notin> set s \<Longrightarrow> c_read (c_str s) = s"
  by (auto simp: c_read_c_str)

lemma NUL_neq [simp]:
  "CHR ''a'' \<noteq> NUL" "CHR ''b'' \<noteq> NUL" "CHR ''4'' \<noteq> NUL" "CHR ''2'' \<noteq> NUL" "CHR ''x'' \<noteq> NUL"
  by (simp_all add: NUL_def)

lemma utf8_string_String: "utf8_string V (String s) = Inr (c_read (c_str s))"
  by (simp add: utf8_string_def Utf8Value_def Value_ToString_def std_string_def)

lemma ascii_Nil [simp]: "ascii []"
  by (simp add: ascii_def)

lemma ascii_Cons [simp]: "ascii (c # cs) \<longleftrightarrow> (of_char c :: nat) < 128 \<and> ascii cs"
  by (simp add: ascii_def)

lemma String_New_c_str:
  "String_New V (c_str v)
     = String (if ascii (takeWhile (\<lambda>c. c \<noteq> NUL) v) then takeWhile (\<lambda>c. c \<noteq> NUL) v
               else FromUtf8 V (takeWhile (\<lambda>c. c \<noteq> NUL) v))"
  by (simp add: String_New_def c_read_c_str Let_def)

lemma String_New_ascii: "NUL \<notin> set v \<Longrightarrow> ascii v \<Longrightarrow> String_New V (c_str v) = String v"
  by (simp add: String_New_def c_read_c_str_id Let_def)

lemma String_New_kept:
  "NUL \<notin> set v \<Longrightarrow> ascii v \<or> FromUtf8 V v = v \<Longrightarrow> String_New V (c_str v) = String v"
  by (auto simp: String_New_def c_read_c_str_id Let_def)

lemma IsString_iff: "IsString v \<longleftrightarrow> (\<exists>s. v = String s)"
  by (cases v) simp_all

lemma register_api_no_fault: "fst (register_api V b obj keys m) \<noteq> Some (Faulted f)"
  by (induction keys arbitrary: m) (auto simp: Let_def IsString_iff utf8_string_String)

lemma register_args_no_fault: "fst (register_args V b api m) \<noteq> Some (Faulted f)"
  by (simp add: register_args_def register_api_no_fault)

section \<open>What run and runSync return\<close>

text \<open>
  C10. \<open>run\<close> returns \<open>Undefined\<close> to its caller on every path: for any arguments and in
  any state of the process it ends without a fault, and the value it returns is
  \<open>Undefined\<close>, whether it threw or scheduled the job.
\<close>

theorem run_returns_Undefined: "\<exists>r. fst (run V args s) = Inr r \<and> returned r = Undefined"
proof -
  obtain ab m' where reg: "register_args V duktapeToNodeBridge (arg args 3) new_vm = (ab, m')"
    by (cases "register_args V duktapeToNodeBridge (arg args 3) new_vm")
  have nf: "ab \<noteq> Some (Faulted f)" for f
    using register_args_no_fault [of V duktapeToNodeBridge "arg args 3" new_vm f] reg by simp
  show ?thesis
  proof (cases "length args < 5 \<or> \<not> IsString (arg args 0) \<or> \<not> IsString (arg args 1)
                 \<or> \<not> IsString (arg args 2) \<or> \<not> IsFunction (arg args 4)")
    case True
    then show ?thesis by (auto simp: run_def throw_def)
  next
    case False
    then obtain f p sc where "arg args 0 = String f" "arg args 1 = String p" "arg args 2 = String sc"
      by (auto simp: IsString_iff)
    with False reg nf show ?thesis
      by (auto simp: run_def utf8_string_String new_WorkRequest_def Let_def throw_def return_def
               split: option.splits abort.splits)
  qed
qed

theorem run_returns_Undefined_witness:
  "\<exists>r. fst (run example_v8
          [String ''main'', String ''{}'', String ''src'', Undefined, function_object 0]
          (fresh_process 0)) = Inr r
     \<and> returned r = Undefined"
  by (rule run_returns_Undefined)

lemma runSync_ends:
  assumes "3 \<le> length args"
    and "arg args 0 = String f" and "arg args 1 = String p" and "arg args 2 = String sc"
    and "register_args V (duktapeToNodeBridge_sync V) (arg args 3) new_vm = (None, m)"
    and "vm_run m (E (c_read (c_str f)) (c_read (c_str p)) (c_read (c_str sc))) h = (Inr ret, h')"
  shows "runSync V E args h
          = (if errorCode ret \<noteq> 0
             then (Inr (throw (Error (String_New V (c_str (value ret))))), h')
             else (Inr (return (String_New V (c_str (value ret)))), h'))"
  using assms by (simp add: runSync_def utf8_string_String)

text \<open>
  C5, as the code has it. When the three required arguments are strings, the api block
  registers without an error and the engine's run ends with \<open>ret\<close>, \<open>runSync\<close> throws
  exactly when the error code of \<open>ret\<close> is not zero; the error then carries, and
  otherwise \<open>runSync\<close> returns, what \<open>String::New\<close> makes of the value of \<open>ret\<close>: the
  value up to its first NUL character, as it is when that is ASCII and as V8 decodes it
  when it is not. The result is the value unchanged when the value holds no NUL and is
  ASCII, or text that the decoder leaves as it is.
\<close>

theorem runSync_result:
  assumes "3 \<le> length args"
    and "arg args 0 = String f" and "arg args 1 = String p" and "arg args 2 = String sc"
    and "register_args V (duktapeToNodeBridge_sync V) (arg args 3) new_vm = (None, m)"
    and "vm_run m (E (c_read (c_str f)) (c_read (c_str p)) (c_read (c_str sc))) h = (Inr ret, h')"
  shows "\<exists>r. runSync V E args h = (Inr r, h')
           \<and> (thrown r \<noteq> None \<longleftrightarrow> errorCode ret \<noteq> 0)
           \<and> (errorCode ret \<noteq> 0 \<longrightarrow> r = throw (Error (String_New V (c_str (value ret)))))
           \<and> (errorCode ret = 0 \<longrightarrow> r = return (String_New V (c_str (value ret))))
           \<and> String_New V (c_str (value ret))
               = String (if ascii (takeWhile (\<lambda>c. c \<noteq> NUL) (value ret))
                         then takeWhile (\<lambda>c. c \<noteq> NUL) (value ret)
                         else FromUtf8 V (takeWhile (\<lambda>c. c \<noteq> NUL) (value ret)))
           \<and> (NUL \<notin> set (value ret) \<and> (ascii (value ret) \<or> FromUtf8 V (value ret) = value ret)
                 \<longrightarrow> String_New V (c_str (value ret)) = String (value ret))"
proof -
  have "runSync V E args h
          = (if errorCode ret \<noteq> 0
             then (Inr (throw (Error (String_New V (c_str (value ret))))), h')
             else (Inr (return (String_New V (c_str (value ret)))), h'))"
    using assms by (rule runSync_ends [where E = E])
  then show ?thesis
    using String_New_c_str [of V "value ret"] String_New_kept [of "value ret" V]
    by (simp add: throw_def return_def)
qed

theorem runSync_result_witness:
  "runSync example_v8 literal_engine [String ''main'', String ''{}'', String ''src''] 0
     = (Inr (return (String ''42'')), 0)
   \<and> runSync example_v8 failing_engine [String ''main'', String ''{}'', String ''src''] 0
     = (Inr (throw (Error (String ''Error: no''))), 0)"
  using runSync_result [of "[String ''main'', String ''{}'', String ''src'']"
      "''main''" "''{}''" "''src''" example_v8 new_vm literal_engine 0
      "\<lparr>errorCode = 0, value = ''42''\<rparr>" 0]
    runSync_result [of "[String ''main'', String ''{}'', String ''src'']"
      "''main''" "''{}''" "''src''" example_v8 new_vm failing_engine 0
      "\<lparr>errorCode = 1, value = ''Error: no''\<rparr>" 0]
  by (simp add: arg_def register_args_def literal_engine_def failing_engine_def c_read_c_str
      NUL_def throw_def return_def)

text \<open>
  C5 as stated fails in two ways. The engine returns the three characters a, NUL, b with
  error code 0, and \<open>runSync\<close> returns the string a. The engine returns the one byte FF,
  which holds no NUL, and \<open>runSync\<close> returns U+FFFD.
\<close>

theorem runSync_value_counterexample:
  "vm_run new_vm (nul_engine ''main'' ''{}'' ''src'') (0::nat)
     = (Inr \<lparr>errorCode = 0, value = ''a'' @ [NUL] @ ''b''\<rparr>, 0)
   \<and> runSync example_v8 nul_engine [String ''main'', String ''{}'', String ''src''] 0
     = (Inr (return (String ''a'')), 0)
   \<and> ''a'' \<noteq> ''a'' @ [NUL] @ ''b''
   \<and> vm_run new_vm (byte_engine ''main'' ''{}'' ''src'') (0::nat)
     = (Inr \<lparr>errorCode = 0, value = [CHR 0xFF]\<rparr>, 0)
   \<and> runSync example_v8 byte_engine [String ''main'', String ''{}'', String ''src''] 0
     = (Inr (return (String replacement)), 0)
   \<and> NUL \<notin> set [CHR 0xFF]
   \<and> replacement \<noteq> [CHR 0xFF]"
  by (simp add: runSync_def arg_def register_args_def nul_engine_def byte_engine_def
      utf8_string_String c_read_c_str String_New_def example_v8_def replacement_def lead_def NUL_def)

section \<open>The api block\<close>

lemma api_error_eq: "Error (String_New V (c_str ''Error in API-definition'')) = api_error"
  by (simp add: api_error_def String_New_ascii NUL_def)

lemma register_api_bad:
  "\<exists>key\<in>set keys. \<not> IsString key \<or> \<not> IsFunction (Get obj key)
     \<Longrightarrow> fst (register_api V b obj keys m) = Some (Thrown api_error)"
proof (induction keys arbitrary: m)
  case Nil
  then show ?case by simp
next
  case (Cons k ks)
  show ?case
  proof (cases "\<not> IsString k \<or> \<not> IsFunction (Get obj k)")
    case True
    then show ?thesis by (auto simp: api_error_eq)
  next
    case False
    with Cons.prems have "\<exists>key\<in>set ks. \<not> IsString key \<or> \<not> IsFunction (Get obj key)"
      by auto
    from Cons.IH [OF this] False show ?thesis
      by (auto simp: Let_def IsString_iff utf8_string_String)
  qed
qed

lemma run_bad_api:
  assumes "5 \<le> length args" "IsString (arg args 0)" "IsString (arg args 1)"
    "IsString (arg args 2)" "IsFunction (arg args 4)" "IsObject (arg args 3)"
    "bad_entry (arg args 3)"
  shows "\<exists>w. run V args s
           = (Inr (throw api_error),
              s\<lparr>requests := (requests s)(next_request s \<mapsto> w),
                next_request := Suc (next_request s)\<rparr>)"
proof -
  obtain f p sc where a: "arg args 0 = String f" "arg args 1 = String p" "arg args 2 = String sc"
    using assms by (auto simp: IsString_iff)
  obtain ab m' where reg: "register_args V duktapeToNodeBridge (arg args 3) new_vm = (ab, m')"
    by (cases "register_args V duktapeToNodeBridge (arg args 3) new_vm")
  have "ab = Some (Thrown api_error)"
    using register_api_bad [of "GetPropertyNames (arg args 3)" "arg args 3" V
        duktapeToNodeBridge new_vm] assms reg
    by (simp add: register_args_def bad_entry_def)
  then show ?thesis
    using assms a reg by (auto simp: run_def utf8_string_String new_WorkRequest_def Let_def)
qed

lemma runSync_bad_api:
  assumes "3 \<le> length args" "IsString (arg args 0)" "IsString (arg args 1)"
    "IsString (arg args 2)" "IsObject (arg args 3)" "bad_entry (arg args 3)"
  shows "runSync V E args h = (Inr (throw api_error), h)"
proof -
  obtain ab m' where reg:
    "register_args V (duktapeToNodeBridge_sync V) (arg args 3) new_vm = (ab, m')"
    by (cases "register_args V (duktapeToNodeBridge_sync V) (arg args 3) new_vm")
  have "ab = Some (Thrown api_error)"
    using register_api_bad [of "GetPropertyNames (arg args 3)" "arg args 3" V
        "duktapeToNodeBridge_sync V" new_vm] assms reg
    by (simp add: register_args_def bad_entry_def)
  then show ?thesis
    using assms reg by (simp add: runSync_def)
qed

lemma arg_take: "i < n \<Longrightarrow> arg (take n args) i = arg args i"
  by (simp add: arg_def)

lemma arg_take_out: "arg (take n args) n = Undefined"
  by (simp add: arg_def)

text \<open>
  C4, as the code has it. When the api argument is an object with an entry whose key is
  not a string or whose value is not a function, \<open>runSync\<close> ends with the exception of
  the api block and the host state it was given: no script has run. \<open>run\<close> ends with the
  same exception, the host state it was given, nothing queued, no worker that was not
  there before, nothing added to the log of effects, and the mutex, the condition
  variable and the wake handle untouched.
\<close>

theorem api_validation:
  assumes "IsString (arg args 0)" and "IsString (arg args 1)" and "IsString (arg args 2)"
    and "IsObject (arg args 3)" and "bad_entry (arg args 3)"
  shows "(3 \<le> length args \<longrightarrow> runSync V E args h = (Inr (throw api_error), h))
       \<and> (5 \<le> length args \<and> IsFunction (arg args 4) \<longrightarrow>
            fst (run V args s) = Inr (throw api_error)
            \<and> host (snd (run V args s)) = host s
            \<and> queue (snd (run V args s)) = queue s
            \<and> workers (snd (run V args s)) = workers s
            \<and> log (snd (run V args s)) = log s
            \<and> mutex (snd (run V args s)) = mutex s
            \<and> cv (snd (run V args s)) = cv s
            \<and> async_data (snd (run V args s)) = async_data s
            \<and> async_pending (snd (run V args s)) = async_pending s
            \<and> async_active (snd (run V args s)) = async_active s)"
proof (intro conjI impI)
  assume "3 \<le> length args"
  with assms show "runSync V E args h = (Inr (throw api_error), h)"
    by (simp add: runSync_bad_api)
next
  assume "5 \<le> length args \<and> IsFunction (arg args 4)"
  with assms run_bad_api [of args V s] obtain w where
    r: "run V args s
          = (Inr (throw api_error),
             s\<lparr>requests := (requests s)(next_request s \<mapsto> w),
               next_request := Suc (next_request s)\<rparr>)"
    by auto
  show "fst (run V args s) = Inr (throw api_error)"
    "host (snd (run V args s)) = host s"
    "queue (snd (run V args s)) = queue s"
    "workers (snd (run V args s)) = workers s"
    "log (snd (run V args s)) = log s"
    "mutex (snd (run V args s)) = mutex s"
    "cv (snd (run V args s)) = cv s"
    "async_data (snd (run V args s)) = async_data s"
    "async_pending (snd (run V args s)) = async_pending s"
    "async_active (snd (run V args s)) = async_active s"
    by (simp_all add: r)
qed

theorem api_validation_witness:
  "runSync example_v8 greet_engine (sync_args index_key_api) 0 = (Inr (throw api_error), 0)
   \<and> fst (run example_v8 (async_args index_key_api 0) (fresh_process 0))
       = Inr (throw api_error)
   \<and> queue (snd (run example_v8 (async_args index_key_api 0) (fresh_process 0))) = []
   \<and> log (snd (run example_v8 (async_args index_key_api 0) (fresh_process 0))) = []
   \<and> async_active (snd (run example_v8 (async_args index_key_api 0) (fresh_process 0)))
       = False"
  using api_validation [of "sync_args index_key_api" example_v8 greet_engine 0 "fresh_process 0"]
    api_validation [of "async_args index_key_api 0" example_v8 greet_engine 0 "fresh_process 0"]
  by (simp add: sync_args_def async_args_def index_key_api_def function_object_def arg_def
      bad_entry_def fresh_process_def)

text \<open>
  C4 as stated fails twice. An entry whose key is the empty string passes the test:
  \<open>run\<close> schedules the job with a callback registered under the empty name. And the
  entries before the one that fails are registered before the call fails: after the
  failing \<open>run\<close> the work request it allocated holds the callback of the first entry.
\<close>

theorem api_validation_counterexample:
  "fst (run example_v8 (async_args empty_key_api 0) (fresh_process 0)) = Inr (return Undefined)
   \<and> queue (snd (run example_v8 (async_args empty_key_api 0) (fresh_process 0))) = [0]
   \<and> map_option vm
        (requests (snd (run example_v8 (async_args empty_key_api 0) (fresh_process 0))) 0)
       = Some \<lparr>callbacks = [([], 1)]\<rparr>
   \<and> fst (run example_v8 (async_args index_key_api 0) (fresh_process 0)) = Inr (throw api_error)
   \<and> map_option vm
        (requests (snd (run example_v8 (async_args index_key_api 0) (fresh_process 0))) 0)
       = Some \<lparr>callbacks = [(''greet'', 1)]\<rparr>"
  by code_simp

text \<open>
  C8, as the code has it. A call with too few arguments, or whose entry point,
  parameters or script is not a string (for \<open>run\<close>: or whose fifth argument is not a
  function) ends with a \<open>TypeError\<close> in the state it was called in. An api object with
  an entry the api block rejects ends the call with a plain \<open>Error\<close>, nothing queued. An api
  argument that is not an object is ignored: \<open>runSync\<close> does what it does on the first
  three arguments alone, and \<open>run\<close> queues the job.
\<close>

theorem argument_errors:
  "(length args < 5 \<or> \<not> IsString (arg args 0) \<or> \<not> IsString (arg args 1)
      \<or> \<not> IsString (arg args 2) \<or> \<not> IsFunction (arg args 4)
      \<longrightarrow> (\<exists>t. run V args s = (Inr (throw (TypeError t)), s)))
   \<and> (length args < 3 \<or> \<not> IsString (arg args 0) \<or> \<not> IsString (arg args 1)
      \<or> \<not> IsString (arg args 2)
      \<longrightarrow> (\<exists>t. runSync V E args h = (Inr (throw (TypeError t)), h)))
   \<and> (3 \<le> length args \<and> IsString (arg args 0) \<and> IsString (arg args 1) \<and> IsString (arg args 2)
      \<and> IsObject (arg args 3) \<and> bad_entry (arg args 3)
      \<longrightarrow> runSync V E args h = (Inr (throw api_error), h)
        \<and> (5 \<le> length args \<and> IsFunction (arg args 4)
             \<longrightarrow> fst (run V args s) = Inr (throw api_error)
               \<and> queue (snd (run V args s)) = queue s))
   \<and> (3 \<le> length args \<and> IsString (arg args 0) \<and> IsString (arg args 1) \<and> IsString (arg args 2)
      \<and> \<not> IsObject (arg args 3)
      \<longrightarrow> runSync V E args h = runSync V E (take 3 args) h
        \<and> (5 \<le> length args \<and> IsFunction (arg args 4)
             \<longrightarrow> fst (run V args s) = Inr (return Undefined)
               \<and> queue (snd (run V args s)) = queue s @ [next_request s]))"
proof (intro conjI impI)
  assume "length args < 5 \<or> \<not> IsString (arg args 0) \<or> \<not> IsString (arg args 1)
      \<or> \<not> IsString (arg args 2) \<or> \<not> IsFunction (arg args 4)"
  then show "\<exists>t. run V args s = (Inr (throw (TypeError t)), s)"
    by (auto simp: run_def)
next
  assume "length args < 3 \<or> \<not> IsString (arg args 0) \<or> \<not> IsString (arg args 1)
      \<or> \<not> IsString (arg args 2)"
  then show "\<exists>t. runSync V E args h = (Inr (throw (TypeError t)), h)"
    by (auto simp: runSync_def)
next
  assume a: "3 \<le> length args \<and> IsString (arg args 0) \<and> IsString (arg args 1)
      \<and> IsString (arg args 2) \<and> IsObject (arg args 3) \<and> bad_entry (arg args 3)"
  then show "runSync V E args h = (Inr (throw api_error), h)"
    by (simp add: runSync_bad_api)
  assume "5 \<le> length args \<and> IsFunction (arg args 4)"
  with a obtain w where r: "run V args s = (Inr (throw api_error),
      s\<lparr>requests := (requests s)(next_request s \<mapsto> w), next_request := Suc (next_request s)\<rparr>)"
    using run_bad_api [of args V s] by auto
  show "fst (run V args s) = Inr (throw api_error)" by (simp add: r)
  show "queue (snd (run V args s)) = queue s" by (simp add: r)
next
  assume a: "3 \<le> length args \<and> IsString (arg args 0) \<and> IsString (arg args 1)
      \<and> IsString (arg args 2) \<and> \<not> IsObject (arg args 3)"
  then show "runSync V E args h = runSync V E (take 3 args) h"
    by (simp add: runSync_def arg_take arg_take_out register_args_def)
  assume b: "5 \<le> length args \<and> IsFunction (arg args 4)"
  from a obtain f p sc where c:
    "arg args 0 = String f" "arg args 1 = String p" "arg args 2 = String sc"
    by (auto simp: IsString_iff)
  show "fst (run V args s) = Inr (return Undefined)"
    using a b c by (simp add: run_def register_args_def utf8_string_String Let_def)
  show "queue (snd (run V args s)) = queue s @ [next_request s]"
    using a b c by (simp add: run_def register_args_def utf8_string_String Let_def)
qed

theorem argument_errors_witness:
  "(\<exists>t. run example_v8 [String ''main''] (fresh_process 0)
          = (Inr (throw (TypeError t)), fresh_process 0))
   \<and> (\<exists>t. runSync example_v8 greet_engine [Number 1, String ''{}'', String ''src''] 0
            = (Inr (throw (TypeError t)), 0))
   \<and> runSync example_v8 greet_engine (sync_args index_key_api) 0 = (Inr (throw api_error), 0)
   \<and> fst (run example_v8 (async_args index_key_api 0) (fresh_process 0)) = Inr (throw api_error)
   \<and> queue (snd (run example_v8 (async_args index_key_api 0) (fresh_process 0))) = []
   \<and> runSync example_v8 literal_engine (sync_args (Number 42)) 0
       = runSync example_v8 literal_engine (take 3 (sync_args (Number 42))) 0
   \<and> fst (run example_v8 (async_args (Number 42) 0) (fresh_process 0)) = Inr (return Undefined)
   \<and> queue (snd (run example_v8 (async_args (Number 42) 0) (fresh_process 0))) = [0]"
  using argument_errors [of "[String ''main'']" example_v8 "fresh_process 0" greet_engine 0]
    argument_errors [of "[Number 1, String ''{}'', String ''src'']" example_v8
      "fresh_process 0" greet_engine 0]
    argument_errors [of "sync_args index_key_api" example_v8 "fresh_process 0" greet_engine 0]
    argument_errors [of "async_args index_key_api 0" example_v8 "fresh_process 0"
      greet_engine 0]
    argument_errors [of "sync_args (Number 42)" example_v8 "fresh_process 0" literal_engine 0]
    argument_errors [of "async_args (Number 42) 0" example_v8 "fresh_process 0"
      literal_engine 0]
  by (simp add: sync_args_def async_args_def index_key_api_def function_object_def arg_def
      bad_entry_def fresh_process_def)

text \<open>
  C8 as stated fails. With the number 42 as api argument \<open>run\<close> throws nothing and queues
  the job, and \<open>runSync\<close> runs the script and returns its value; and the exception for
  an api object with an index key is an \<open>Error\<close>, not a \<open>TypeError\<close>.
\<close>

theorem argument_errors_counterexample:
  "fst (run example_v8 (async_args (Number 42) 0) (fresh_process 0)) = Inr (return Undefined)
   \<and> queue (snd (run example_v8 (async_args (Number 42) 0) (fresh_process 0))) = [0]
   \<and> runSync example_v8 literal_engine (sync_args (Number 42)) 0
       = (Inr (return (String ''42'')), 0)
   \<and> runSync example_v8 literal_engine (sync_args index_key_api) 0
       = (Inr (throw (Error (String ''Error in API-definition''))), 0)"
  by code_simp

section \<open>What a callback hands back to the script\<close>

text \<open>
  C9, as the code has it. Let the bound host function return a value \<open>v\<close> that V8
  converts to the string \<open>t\<close>, whatever the type of \<open>v\<close>. On the synchronous path the
  lambda returns \<open>t\<close> read as a C string, without a fault. On the asynchronous path
  \<open>callV8FunctionOnMainThread\<close> stores \<open>t\<close> read as a C string in the envelope, without
  a fault, and the worker's lambda hands the stored string to the engine. Read as a C
  string, \<open>t\<close> ends at its first NUL character and is \<open>t\<close> itself when it holds none.
\<close>

theorem bridge_returns_text:
  assumes "Value_ToString V v = Some t"
  shows "(Call V f [String_New V (c_str p)] h = (Returned v, h')
            \<longrightarrow> duktapeToNodeBridge_sync V f p h = (Inr (c_read (c_str t)), h'))
       \<and> (async_data s = Some a \<and> envelopes s a = Some sd
           \<and> Call V (APICallbackSignaling.callback sd)
                [String_New V (c_str (parameter sd))] (host s) = (Returned v, h')
            \<longrightarrow> envelopes (callV8FunctionOnMainThread_body V s) a
                  = Some (sd\<lparr>APICallbackSignaling.returnValue := c_read (c_str t)\<rparr>)
              \<and> crashed (callV8FunctionOnMainThread_body V s) = crashed s
              \<and> host (callV8FunctionOnMainThread_body V s) = h')
       \<and> (envelopes s a = Some sd
            \<longrightarrow> map_option (\<lambda>s'. workers s' j) (onWork_step j (W_read a k) s)
                  = Some (Some (W_run (k (Some (APICallbackSignaling.returnValue sd))))))
       \<and> (NUL \<notin> set t \<longrightarrow> c_read (c_str t) = t)"
  using assms
  by (simp add: duktapeToNodeBridge_sync_def callV8FunctionOnMainThread_body_def Utf8Value_def
      std_string_def c_read_c_str_id set_worker_def)

theorem bridge_returns_text_witness:
  "duktapeToNodeBridge_sync example_v8 3 ''x'' 0 = (Inr ''7'', 1)
   \<and> envelopes (callV8FunctionOnMainThread_body example_v8 posted_process) 0
       = Some \<lparr>APICallbackSignaling.callback = 3, parameter = ''x'',
                APICallbackSignaling.returnValue = ''7''\<rparr>
   \<and> crashed (callV8FunctionOnMainThread_body example_v8 posted_process) = None
   \<and> host (callV8FunctionOnMainThread_body example_v8 posted_process) = 1
   \<and> map_option (\<lambda>s'. workers s' 0) (onWork_step 0 (W_read 0 echo) posted_process)
       = Some (Some (W_run (echo (Some []))))
   \<and> c_read (c_str ''7'') = ''7''"
  using bridge_returns_text [of example_v8 "Number 7" "''7''" 3 "''x''" 0 1 posted_process 0
      "\<lparr>APICallbackSignaling.callback = 3, parameter = ''x'',
        APICallbackSignaling.returnValue = []\<rparr>" 0 echo]
  by (simp add: Value_ToString_def example_v8_def example_ToString_def example_Call_def
      c_read_c_str NUL_def posted_process_def fresh_process_def String_New_def)

text \<open>
  C9 as stated fails. Function 2 returns the three characters a, NUL, b and the lambda
  hands back the string a; function 5 returns an object whose conversion raises, and the
  lambda ends in a fault, \<open>std::string\<close> being built from NULL.
\<close>

theorem bridge_returns_text_counterexample:
  "example_Call 2 [String ''x''] 0 = (Returned (String (''a'' @ [NUL] @ ''b'')), 1)
   \<and> duktapeToNodeBridge_sync example_v8 2 ''x'' 0 = (Inr ''a'', 1)
   \<and> duktapeToNodeBridge_sync example_v8 5 ''x'' 0 = (Inl NullString, 1)"
  by (simp add: duktapeToNodeBridge_sync_def example_v8_def example_Call_def
      example_ToString_def String_New_def Utf8Value_def Value_ToString_def std_string_def
      c_read_c_str)

section \<open>Completion\<close>



lemma onWorkDone_Threw:
  assumes "requests s req = Some work" and "mutex s = None" and "cv s = []"
    and "Call V (WorkRequest.callback work)
           [Boolean (hasError work), String_New V (c_str (WorkRequest.returnValue work))]
           (host s) = (Threw e, h')"
  shows "onWorkDone V req s
           = (case Uncaught V e h' of
                None \<Rightarrow>
                  s\<lparr>async_active := False, host := h', crashed := Some Exited,
                    log := log s @ [AsyncClose, MutexDestroy, CondDestroy,
                             CompletionCall req (WorkRequest.callback work)
                               [Boolean (hasError work),
                                String_New V (c_str (WorkRequest.returnValue work))],
                             FatalException e]\<rparr>
              | Some h'' \<Rightarrow>
                  s\<lparr>async_active := False, host := h'', requests := (requests s)(req := None),
                    log := log s @ [AsyncClose, MutexDestroy, CondDestroy,
                             CompletionCall req (WorkRequest.callback work)
                               [Boolean (hasError work),
                                String_New V (c_str (WorkRequest.returnValue work))],
                             FatalException e,
                             CallbackDispose req, DeleteWorkRequest req, DeleteWork req]\<rparr>)"
  using assms
  by (simp add: onWorkDone_def ScopedUvWorkRequest_dtor_def Let_def split: option.splits)




text \<open>
  C7, as the code has it. Let request \<open>req\<close> be over and its completion callback raise
  \<open>e\<close> when the event loop calls \<open>onWorkDone\<close> for it. The callback was called once, and
  the next and last thing \<open>onWorkDone\<close> itself does is to pass \<open>e\<close> to \<open>FatalException\<close>:
  the callback is not called again and no result is made of \<open>e\<close>. When node exits
  inside \<open>FatalException\<close>, as it does when the host listens to no \<open>uncaughtException\<close>,
  the process is over: it takes no further step. When the host listens, node returns, the
  request is released and the process goes on.
\<close>

theorem notifier_exception_is_fatal:
  assumes "crashed s = None" and "main s = M_idle" and "workers s req = Some W_done"
    and "requests s req = Some work" and "mutex s = None" and "cv s = []"
    and "Call V (WorkRequest.callback work)
           [Boolean (hasError work), String_New V (c_str (WorkRequest.returnValue work))]
           (host s) = (Threw e, h')"
  shows "\<exists>s'. step V E (Done req) s = Some s'
           \<and> log s' = log s @ [AsyncClose, MutexDestroy, CondDestroy,
                        CompletionCall req (WorkRequest.callback work)
                          [Boolean (hasError work),
                           String_New V (c_str (WorkRequest.returnValue work))],
                        FatalException e]
                 @ (case Uncaught V e h' of
                      None \<Rightarrow> []
                    | Some h'' \<Rightarrow> [CallbackDispose req, DeleteWorkRequest req, DeleteWork req])
           \<and> (Uncaught V e h' = None
                \<longrightarrow> crashed s' = Some Exited \<and> (\<forall>a. step V E a s' = None))
           \<and> (\<forall>h''. Uncaught V e h' = Some h''
                \<longrightarrow> crashed s' = None \<and> host s' = h'' \<and> requests s' req = None)"
proof -
  let ?s = "s\<lparr>workers := (workers s)(req := None)\<rparr>"
  have st: "step V E (Done req) s = Some (onWorkDone V req ?s)"
    using assms by (simp add: step_def)
  have od: "onWorkDone V req ?s
      = (case Uncaught V e h' of
           None \<Rightarrow>
             ?s\<lparr>async_active := False, host := h', crashed := Some Exited,
               log := log ?s @ [AsyncClose, MutexDestroy, CondDestroy,
                        CompletionCall req (WorkRequest.callback work)
                          [Boolean (hasError work),
                           String_New V (c_str (WorkRequest.returnValue work))],
                        FatalException e]\<rparr>
         | Some h'' \<Rightarrow>
             ?s\<lparr>async_active := False, host := h'', requests := (requests ?s)(req := None),
               log := log ?s @ [AsyncClose, MutexDestroy, CondDestroy,
                        CompletionCall req (WorkRequest.callback work)
                          [Boolean (hasError work),
                           String_New V (c_str (WorkRequest.returnValue work))],
                        FatalException e,
                        CallbackDispose req, DeleteWorkRequest req, DeleteWork req]\<rparr>)"
    using assms by (intro onWorkDone_Threw) simp_all
  show ?thesis
  proof (cases "Uncaught V e h'")
    case None
    with od st assms show ?thesis by (simp add: step_def)
  next
    case (Some h'')
    with od st assms show ?thesis by simp
  qed
qed

theorem notifier_exception_is_fatal_witness:
  "\<exists>s'. step example_v8 literal_engine (Done 0) (finished_process 4 0 ''hi:x'') = Some s'
     \<and> log s' = [AsyncClose, MutexDestroy, CondDestroy,
                 CompletionCall 0 4 [Boolean False, String ''hi:x''],
                 FatalException (String ''boom'')]
     \<and> crashed s' = Some Exited \<and> (\<forall>a. step example_v8 literal_engine a s' = None)"
  using notifier_exception_is_fatal [of "finished_process 4 0 ''hi:x''" 0
      "onWork_return 0 ''hi:x'' (new_WorkRequest ''main'' ''{}'' ''src'' 4)" example_v8
      "String ''boom''" 1 literal_engine]
  by (simp add: finished_process_def fresh_process_def onWork_return_def new_WorkRequest_def
      example_v8_def example_Call_def String_New_def c_read_c_str NUL_def)

text \<open>
  C7 as stated fails where the host listens to \<open>uncaughtException\<close>: the completion
  callback of request 0 raises, the listener takes the exception, and the process goes
  on to run request 1 and to call its completion callback.
\<close>

theorem notifier_exception_is_fatal_counterexample:
  "map_option log
     (exec listening_v8 literal_engine
        [Submit (async_args Undefined 4), Start 0, Work 0, Done 0,
         Submit (async_args Undefined 0), Start 1, Work 1, Done 1] (fresh_process 0))
     = Some [MutexInit, CondInit, AsyncInit, QueueWork 0, RunReturned 0 0 ''42'',
             AsyncClose, MutexDestroy, CondDestroy,
             CompletionCall 0 4 [Boolean False, String ''42''],
             FatalException (String ''boom''),
             CallbackDispose 0, DeleteWorkRequest 0, DeleteWork 0,
             MutexInit, CondInit, AsyncInit, QueueWork 1, RunReturned 1 0 ''42'',
             AsyncClose, MutexDestroy, CondDestroy,
             CompletionCall 1 0 [Boolean False, String ''42''],
             CallbackDispose 1, DeleteWorkRequest 1, DeleteWork 1]
   \<and> map_option crashed
       (exec listening_v8 literal_engine
          [Submit (async_args Undefined 4), Start 0, Work 0, Done 0,
           Submit (async_args Undefined 0), Start 1, Work 1, Done 1] (fresh_process 0))
     = Some None"
  by code_simp

section \<open>Delivery of the result\<close>

lemma completions_append [simp]: "completions j (xs @ ys) = completions j xs @ completions j ys"
  by (simp add: completions_def)
lemma returns_append [simp]: "returns j (xs @ ys) = returns j xs @ returns j ys"
  by (simp add: returns_def)
lemma completions_Nil [simp]: "completions j [] = []" by (simp add: completions_def)
lemma returns_Nil [simp]: "returns j [] = []" by (simp add: returns_def)
lemma completions_Cons [simp]: "completions j (e # es) = (if completion_of j e then e # completions j es else completions j es)"
  by (simp add: completions_def)
lemma returns_Cons [simp]: "returns j (e # es) = (if return_of j e then e # returns j es else returns j es)"
  by (simp add: returns_def)





lemma worker_ok_upd_other [simp]:
  "i \<noteq> j \<Longrightarrow> worker_ok j w lg (rq(i := x)) = worker_ok j w lg rq"
  by (cases w) simp_all













lemma quiet_completions [simp]: "quiet es \<Longrightarrow> completions j es = []"
  by (simp add: quiet_def completions_def)

lemma quiet_returns [simp]: "quiet es \<Longrightarrow> returns j es = []"
  by (simp add: quiet_def returns_def)






lemma callV8FunctionOnMainThread_body_same [simp]:
  "requests (callV8FunctionOnMainThread_body V s) = requests s"
  "next_request (callV8FunctionOnMainThread_body V s) = next_request s"
  "queue (callV8FunctionOnMainThread_body V s) = queue s"
  "workers (callV8FunctionOnMainThread_body V s) = workers s"
  "main (callV8FunctionOnMainThread_body V s) = main s"
  "mutex (callV8FunctionOnMainThread_body V s) = mutex s"
  "cv (callV8FunctionOnMainThread_body V s) = cv s"
  "async_pending (callV8FunctionOnMainThread_body V s) = async_pending s"
  "async_active (callV8FunctionOnMainThread_body V s) = async_active s"
  "async_data (callV8FunctionOnMainThread_body V s) = async_data s"
  "next_envelope (callV8FunctionOnMainThread_body V s) = next_envelope s"
  by (simp_all add: callV8FunctionOnMainThread_body_def Let_def split: option.splits prod.splits sum.splits)

lemma uv_cond_signal_same [simp]:
  "requests (uv_cond_signal c s) = requests s"
  "next_request (uv_cond_signal c s) = next_request s"
  "queue (uv_cond_signal c s) = queue s"
  "log (uv_cond_signal c s) = log s"
  "main (uv_cond_signal c s) = main s"
  "mutex (uv_cond_signal c s) = mutex s"
  "crashed (uv_cond_signal c s) = crashed s"
  "host (uv_cond_signal c s) = host s"
  "envelopes (uv_cond_signal c s) = envelopes s"
  "async_pending (uv_cond_signal c s) = async_pending s"
  "async_active (uv_cond_signal c s) = async_active s"
  "async_data (uv_cond_signal c s) = async_data s"
  "next_envelope (uv_cond_signal c s) = next_envelope s"
  by (simp_all add: uv_cond_signal_def Let_def)



lemma onWorkDone_same [simp]:
  "workers (onWorkDone V req s) = workers s"
  "queue (onWorkDone V req s) = queue s"
  "next_request (onWorkDone V req s) = next_request s"
  "main (onWorkDone V req s) = main s"
  by (simp_all add: onWorkDone_def ScopedUvWorkRequest_dtor_def Let_def
      split: option.splits prod.splits call_result.splits)













section \<open>The channel with one job in flight\<close>

lemma stored_below_append [simp]:
  "stored_below n (xs @ ys) = (stored_below n xs \<and> stored_below n ys)"
  by (auto simp: stored_below_def)

lemma stored_below_Nil [simp]: "stored_below n []"
  by (simp add: stored_below_def)

lemma stored_below_Cons [simp]:
  "stored_below n (e # es) = ((case e of Stored a r \<Rightarrow> a < n | _ \<Rightarrow> True) \<and> stored_below n es)"
  by (auto simp: stored_below_def split: event.splits)








lemma unserved_update [simp]:
  "unserved a (s\<lparr>host := x_host\<rparr>) = unserved a s"
  "unserved a (s\<lparr>async_pending := x_async_pending\<rparr>) = unserved a s"
  "unserved a (s\<lparr>async_active := x_async_active\<rparr>) = unserved a s"
  "unserved a (s\<lparr>cv := x_cv\<rparr>) = unserved a s"
  "unserved a (s\<lparr>mutex := x_mutex\<rparr>) = unserved a s"
  "unserved a (s\<lparr>requests := x_requests\<rparr>) = unserved a s"
  "unserved a (s\<lparr>next_request := x_next_request\<rparr>) = unserved a s"
  "unserved a (s\<lparr>queue := x_queue\<rparr>) = unserved a s"
  "unserved a (s\<lparr>workers := x_workers\<rparr>) = unserved a s"
  "unserved a (s\<lparr>main := x_main\<rparr>) = unserved a s"
  "unserved a (s\<lparr>crashed := x_crashed\<rparr>) = unserved a s"
  by (simp_all add: unserved_def)

lemma served_update [simp]:
  "served V a (s\<lparr>host := x_host\<rparr>) = served V a s"
  "served V a (s\<lparr>async_data := x_async_data\<rparr>) = served V a s"
  "served V a (s\<lparr>async_pending := x_async_pending\<rparr>) = served V a s"
  "served V a (s\<lparr>async_active := x_async_active\<rparr>) = served V a s"
  "served V a (s\<lparr>cv := x_cv\<rparr>) = served V a s"
  "served V a (s\<lparr>mutex := x_mutex\<rparr>) = served V a s"
  "served V a (s\<lparr>requests := x_requests\<rparr>) = served V a s"
  "served V a (s\<lparr>next_request := x_next_request\<rparr>) = served V a s"
  "served V a (s\<lparr>next_envelope := x_next_envelope\<rparr>) = served V a s"
  "served V a (s\<lparr>queue := x_queue\<rparr>) = served V a s"
  "served V a (s\<lparr>workers := x_workers\<rparr>) = served V a s"
  "served V a (s\<lparr>main := x_main\<rparr>) = served V a s"
  "served V a (s\<lparr>crashed := x_crashed\<rparr>) = served V a s"
  by (simp_all add: served_def)






















section \<open>A job in flight is completed\<close>

lemma posted_update [simp]:
  "posted V M R k a (s\<lparr>async_pending := x1\<rparr>) = posted V M R k a s"
  "posted V M R k a (s\<lparr>async_active := x2\<rparr>) = posted V M R k a s"
  "posted V M R k a (s\<lparr>cv := x3\<rparr>) = posted V M R k a s"
  "posted V M R k a (s\<lparr>mutex := x4\<rparr>) = posted V M R k a s"
  "posted V M R k a (s\<lparr>requests := x5\<rparr>) = posted V M R k a s"
  "posted V M R k a (s\<lparr>next_request := x6\<rparr>) = posted V M R k a s"
  "posted V M R k a (s\<lparr>next_envelope := x7\<rparr>) = posted V M R k a s"
  "posted V M R k a (s\<lparr>queue := x8\<rparr>) = posted V M R k a s"
  "posted V M R k a (s\<lparr>workers := x9\<rparr>) = posted V M R k a s"
  "posted V M R k a (s\<lparr>main := x10\<rparr>) = posted V M R k a s"
  "posted V M R k a (s\<lparr>crashed := x11\<rparr>) = posted V M R k a s"
  "posted V M R k a (s\<lparr>log := x12\<rparr>) = posted V M R k a s"
  by (simp_all add: posted_def split: option.splits)

lemma answered_update [simp]:
  "answered M R k a (s\<lparr>async_pending := x1\<rparr>) = answered M R k a s"
  "answered M R k a (s\<lparr>async_active := x2\<rparr>) = answered M R k a s"
  "answered M R k a (s\<lparr>cv := x3\<rparr>) = answered M R k a s"
  "answered M R k a (s\<lparr>mutex := x4\<rparr>) = answered M R k a s"
  "answered M R k a (s\<lparr>requests := x5\<rparr>) = answered M R k a s"
  "answered M R k a (s\<lparr>next_request := x6\<rparr>) = answered M R k a s"
  "answered M R k a (s\<lparr>next_envelope := x7\<rparr>) = answered M R k a s"
  "answered M R k a (s\<lparr>queue := x8\<rparr>) = answered M R k a s"
  "answered M R k a (s\<lparr>workers := x9\<rparr>) = answered M R k a s"
  "answered M R k a (s\<lparr>main := x10\<rparr>) = answered M R k a s"
  "answered M R k a (s\<lparr>crashed := x11\<rparr>) = answered M R k a s"
  "answered M R k a (s\<lparr>log := x12\<rparr>) = answered M R k a s"
  "answered M R k a (s\<lparr>async_data := x13\<rparr>) = answered M R k a s"
  by (simp_all add: answered_def split: option.splits)







































end
